theory Spec2Isabelle
  imports Main "HOL-Library.Word" "HOL-Library.Multiset"
begin

section \<open>JavaScript values\<close>

text \<open>
  A JavaScript string is a sequence of 16-bit code units, and \<^verbatim>\<open>.length\<close> counts
  code units. String literals of the source that are plain ASCII are written with \<open>lit\<close>;
  the two typographic quotes of the source's "is taken" message are the code units
  \<open>0x2018\<close> and \<open>0x2019\<close>.
\<close>

type_synonym jsstring = "16 word list"

definition lit :: "string \<Rightarrow> jsstring" where
  "lit s = map of_char s"

text \<open>
  The attribute values the model covers: an absent attribute (\<^verbatim>\<open>undefined\<close>),
  \<^verbatim>\<open>null\<close> and strings. Numbers, booleans, arrays and other objects are outside
  the model.
\<close>

datatype jsval = Undefined | Null | Str jsstring

text \<open>Truthiness, as tested by \<^verbatim>\<open>!val\<close>.\<close>

fun truthy :: "jsval \<Rightarrow> bool" where
  "truthy Undefined = False"
| "truthy Null = False"
| "truthy (Str s) = (s \<noteq> [])"

text \<open>The conversion to a string done by \<^verbatim>\<open>'...' + val\<close> and by \<^verbatim>\<open>RegExp.test\<close>.\<close>

fun to_string :: "jsval \<Rightarrow> jsstring" where
  "to_string Undefined = lit ''undefined''"
| "to_string Null = lit ''null''"
| "to_string (Str s) = s"

text \<open>\<^verbatim>\<open>val.length\<close>, read only on truthy values, which are strings here.\<close>

fun js_length :: "jsval \<Rightarrow> nat" where
  "js_length (Str s) = length s"
| "js_length _ = 0"

text \<open>An object is a map from keys to values; reading a missing key gives \<^verbatim>\<open>undefined\<close>.\<close>

type_synonym jsobject = "string \<rightharpoonup> jsval"

definition prop_get :: "jsobject \<Rightarrow> string \<Rightarrow> jsval" where
  "prop_get obj k = (case obj k of None \<Rightarrow> Undefined | Some v \<Rightarrow> v)"

text \<open>\<^verbatim>\<open>Array.prototype.join\<close> on the lines of a query.\<close>

fun join :: "string \<Rightarrow> string list \<Rightarrow> string" where
  "join sep [] = []"
| "join sep [x] = x"
| "join sep (x # y # ys) = x @ sep @ join sep (y # ys)"

section \<open>Errors\<close>

text \<open>
  An error handed back by the store client: the three error classes of the neo4j
  driver carry the structured code \<^verbatim>\<open>err.neo4j.code\<close>; any other failure (for
  instance of the connection) carries only a message.
\<close>

datatype store_error =
    ClientError jsstring
  | DatabaseError jsstring
  | TransientError jsstring
  | OtherError jsstring

text \<open>
  The errors an operation can end with. \<open>Error\<close> is the built-in class constructed by
  \<^verbatim>\<open>new Error(msg)\<close>, \<open>TypeError\<close> the one the runtime raises on a read or a
  call on \<^verbatim>\<open>undefined\<close> (its message is the engine's own), \<open>ValidationError\<close>
  the class \<^verbatim>\<open>errors.ValidationError\<close>, and \<open>StoreError\<close> a store error passed
  on as it is.

  Modelled from the spec: the module \<^verbatim>\<open>models/errors.js\<close> is missing from the
  sources; \<open>NotFoundError\<close> is the class the specification's error taxonomy names for
  a title that does not exist. No function of the source constructs it.
\<close>

datatype js_error =
    Error jsstring
  | ValidationError jsstring
  | NotFoundError jsstring
  | TypeError
  | StoreError store_error

section \<open>Validation\<close>

record info =
  required :: bool
  minLength :: nat
  maxLength :: nat
  pattern :: "jsstring \<Rightarrow> bool"
  message :: jsstring

text \<open>The character class \<^verbatim>\<open>[A-Za-z0-9_]\<close>.\<close>

definition word_char :: "16 word \<Rightarrow> bool" where
  "word_char c =
     ((0x41 \<le> c \<and> c \<le> 0x5A) \<or> (0x61 \<le> c \<and> c \<le> 0x7A) \<or>
      (0x30 \<le> c \<and> c \<le> 0x39) \<or> c = 0x5F)"

text \<open>
  \<^verbatim>\<open>/^[A-Za-z0-9_]+$/.test(s)\<close>: without the multiline flag the anchors are the two
  ends of the input, so the whole string is one or more characters of the class.
\<close>

definition title_pattern :: "jsstring \<Rightarrow> bool" where
  "title_pattern s = (s \<noteq> [] \<and> list_all word_char s)"

definition title_info :: info where
  "title_info =
     \<lparr> required = True, minLength = 2, maxLength = 55, pattern = title_pattern,
       message = lit ''2-55 characters; letters, numbers, and underscores only.'' \<rparr>"

definition VALIDATION_INFO :: "(string \<times> info) list" where
  "VALIDATION_INFO = [(''title'', title_info)]"

text \<open>
  \<^verbatim>\<open>Bubble.VALIDATION_INFO[prop]\<close> also finds the properties that the object literal
  inherits from \<^verbatim>\<open>Object.prototype\<close>. Such a value has none of the fields
  \<^verbatim>\<open>required\<close>, \<^verbatim>\<open>minLength\<close>, \<^verbatim>\<open>maxLength\<close>, \<^verbatim>\<open>pattern\<close>, so every check
  is skipped.
\<close>

definition Object_prototype_keys :: "string list" where
  "Object_prototype_keys =
     [''constructor'', ''__defineGetter__'', ''__defineSetter__'', ''hasOwnProperty'',
      ''__lookupGetter__'', ''__lookupSetter__'', ''isPrototypeOf'', ''propertyIsEnumerable'',
      ''toString'', ''valueOf'', ''__proto__'', ''toLocaleString'']"

text \<open>
  \<open>validateProp\<close> returns the error it throws, or \<open>None\<close> when it returns normally.
  \<open>req\<close> is the truthiness of the argument \<^verbatim>\<open>required\<close>. For a key that is
  neither in \<open>VALIDATION_INFO\<close> nor inherited, \<^verbatim>\<open>info\<close> is \<^verbatim>\<open>undefined\<close> and
  \<^verbatim>\<open>info.message\<close> throws; for an inherited key the function returns normally.
\<close>

definition validateProp :: "string \<Rightarrow> jsval \<Rightarrow> bool \<Rightarrow> js_error option" where
  "validateProp prop val req =
     (case map_of VALIDATION_INFO prop of
        None \<Rightarrow> if prop \<in> set Object_prototype_keys then None else Some TypeError
      | Some info \<Rightarrow>
          if \<not> truthy val then
            (if required info \<and> req
             then Some (ValidationError (lit ''Missing '' @ lit prop @ lit '' (required).''))
             else None)
          else if minLength info \<noteq> 0 \<and> js_length val < minLength info then
            Some (ValidationError
              (lit ''Invalid '' @ lit prop @ lit '' (too short). Requirements: '' @ message info))
          else if maxLength info \<noteq> 0 \<and> js_length val > maxLength info then
            Some (ValidationError
              (lit ''Invalid '' @ lit prop @ lit '' (too long). Requirements: '' @ message info))
          else if \<not> pattern info (to_string val) then
            Some (ValidationError
              (lit ''Invalid '' @ lit prop @ lit '' (format). Requirements: '' @ message info))
          else None)"

text \<open>
  The loop of \<open>validate\<close> over the keys of \<open>VALIDATION_INFO\<close>; \<open>safe\<close> is
  \<^verbatim>\<open>safeProps\<close> so far. A throw of \<open>validateProp\<close> ends the loop.
\<close>

fun validate_loop :: "string list \<Rightarrow> jsobject \<Rightarrow> bool \<Rightarrow> jsobject \<Rightarrow> js_error + jsobject" where
  "validate_loop [] props req safe = Inr safe"
| "validate_loop (prop # rest) props req safe =
     (let val = prop_get props prop in
      case validateProp prop val req of
        Some e \<Rightarrow> Inl e
      | None \<Rightarrow> validate_loop rest props req (safe(prop \<mapsto> val)))"

definition validate :: "jsobject \<Rightarrow> bool \<Rightarrow> js_error + jsobject" where
  "validate props req = validate_loop (map fst VALIDATION_INFO) props req Map.empty"

text \<open>
  The data model's rule for a title, in the specification's words: a string of 2--55
  characters, each a letter, a digit or an underscore (\<^verbatim>\<open>^[A-Za-z0-9_]{2,55}$\<close>).
\<close>

definition spec_title_ok :: "jsstring \<Rightarrow> bool" where
  "spec_title_ok s = (2 \<le> length s \<and> length s \<le> 55 \<and> list_all word_char s)"

text \<open>The message of the first failing check, in the order of the source.\<close>

definition first_failure :: "jsstring \<Rightarrow> jsstring" where
  "first_failure s =
     (if length s < 2 then
        lit ''Invalid title (too short). Requirements: 2-55 characters; letters, numbers, and underscores only.''
      else if length s > 55 then
        lit ''Invalid title (too long). Requirements: 2-55 characters; letters, numbers, and underscores only.''
      else
        lit ''Invalid title (format). Requirements: 2-55 characters; letters, numbers, and underscores only.'')"

section \<open>Nodes, bubbles and the store client\<close>

text \<open>
  A node as the driver returns it (\<^verbatim>\<open>_id\<close>, \<^verbatim>\<open>labels\<close> and
  \<^verbatim>\<open>properties\<close>), and a Bubble, which wraps one node in its field \<^verbatim>\<open>_node\<close>
  (\<open>bnode\<close>).
\<close>

record node =
  node_id :: nat
  labels :: "string list"
  properties :: jsobject

record bubble =
  bnode :: node

text \<open>The getter \<^verbatim>\<open>title\<close>: \<^verbatim>\<open>this._node.properties['title']\<close>.\<close>

definition title :: "bubble \<Rightarrow> jsval" where
  "title b = prop_get (properties (bnode b)) ''title''"

text \<open>
  The argument of \<^verbatim>\<open>db.cypher\<close>: the query text and its parameters, each a value or
  a property set.
\<close>

datatype param = Val jsval | Props jsobject

record request =
  query :: string
  params :: "string \<rightharpoonup> param"

text \<open>
  What the store client hands to the callback: an error, or the rows. A row of a query
  that returns \<^verbatim>\<open>bubble\<close> is the node in that column; a row of the query that returns
  \<^verbatim>\<open>other, COUNT(rel)\<close> is the pair of its two columns.
\<close>

type_synonym 'r response = "store_error + 'r list"

text \<open>
  How an operation ends: it throws before or inside its callback, or it calls the
  caller's callback with an error, or with a result.
\<close>

datatype 'a outcome = Threw js_error | CallbackErr js_error | CallbackOk 'a

fun isConstraintViolation :: "store_error \<Rightarrow> bool" where
  "isConstraintViolation (ClientError code) =
     (code = lit ''Neo.ClientError.Schema.ConstraintViolation'')"
| "isConstraintViolation _ = False"

text \<open>The message built where a constraint violation is translated.\<close>

definition taken_message :: "jsobject \<Rightarrow> jsstring" where
  "taken_message props =
     lit ''The title '' @ [0x2018] @ to_string (prop_get props ''title'') @ [0x2019] @
     lit '' is taken.''"

definition newline :: string where
  "newline = [CHR 0x0A]"

section \<open>Bubble.create\<close>

definition create_query :: string where
  "create_query = join newline
     [''CREATE (bubble:Bubble {props})'',
      ''RETURN bubble'']"

text \<open>
  The part of \<open>create\<close> before \<^verbatim>\<open>db.cypher\<close>: the source calls \<^verbatim>\<open>validate(props)\<close>
  with one argument, so \<^verbatim>\<open>required\<close> is \<^verbatim>\<open>undefined\<close>, which is falsy.
\<close>

definition create_request :: "jsobject \<Rightarrow> js_error + request" where
  "create_request props =
     (case validate props False of
        Inl e \<Rightarrow> Inl e
      | Inr safeProps \<Rightarrow>
          Inr \<lparr> query = create_query, params = [''props'' \<mapsto> Props safeProps] \<rparr>)"

definition create_callback :: "jsobject \<Rightarrow> node response \<Rightarrow> bubble outcome" where
  "create_callback props resp =
     (case resp of
        Inl err \<Rightarrow>
          CallbackErr
            (if isConstraintViolation err then ValidationError (taken_message props)
             else StoreError err)
      | Inr results \<Rightarrow>
          (case results of
             [] \<Rightarrow> Threw TypeError
           | r # _ \<Rightarrow> CallbackOk \<lparr> bnode = r \<rparr>))"

text \<open>
  The whole operation against a store \<open>db\<close> with state \<open>'s\<close>: \<open>db\<close> is called once,
  and only when validation has passed.
\<close>

definition create ::
  "(request \<Rightarrow> 's \<Rightarrow> node response \<times> 's) \<Rightarrow> jsobject \<Rightarrow> 's \<Rightarrow> bubble outcome \<times> 's" where
  "create db props s =
     (case create_request props of
        Inl e \<Rightarrow> (Threw e, s)
      | Inr rq \<Rightarrow> (case db rq s of (resp, s') \<Rightarrow> (create_callback props resp, s')))"

section \<open>Bubble.get\<close>

definition get_query :: string where
  "get_query = join newline
     [''MATCH (bubble:Bubble {title: {title}})'',
      ''RETURN bubble'']"

definition get_request :: "jsval \<Rightarrow> request" where
  "get_request t = \<lparr> query = get_query, params = [''title'' \<mapsto> Val t] \<rparr>"

definition get_callback :: "jsval \<Rightarrow> node response \<Rightarrow> bubble outcome" where
  "get_callback t resp =
     (case resp of
        Inl err \<Rightarrow> CallbackErr (StoreError err)
      | Inr results \<Rightarrow>
          (case results of
             [] \<Rightarrow> CallbackErr (Error (lit ''No such bubble with title: '' @ to_string t))
           | r # _ \<Rightarrow> CallbackOk \<lparr> bnode = r \<rparr>))"

definition get ::
  "(request \<Rightarrow> 's \<Rightarrow> node response \<times> 's) \<Rightarrow> jsval \<Rightarrow> 's \<Rightarrow> bubble outcome \<times> 's" where
  "get db t s = (case db (get_request t) s of (resp, s') \<Rightarrow> (get_callback t resp, s'))"

section \<open>Bubble.prototype.patch\<close>

definition patch_query :: string where
  "patch_query = join newline
     [''MATCH (bubble:Bubble {title: {title}})'',
      ''SET bubble += {props}'',
      ''RETURN bubble'']"

definition patch_request :: "bubble \<Rightarrow> jsobject \<Rightarrow> js_error + request" where
  "patch_request self props =
     (case validate props False of
        Inl e \<Rightarrow> Inl e
      | Inr safeProps \<Rightarrow>
          Inr \<lparr> query = patch_query,
                params = [''title'' \<mapsto> Val (title self), ''props'' \<mapsto> Props safeProps] \<rparr>)"

text \<open>The callback returns how the operation ends and the Bubble object after it.\<close>

definition patch_callback :: "bubble \<Rightarrow> jsobject \<Rightarrow> node response \<Rightarrow> unit outcome \<times> bubble" where
  "patch_callback self props resp =
     (case resp of
        Inl err \<Rightarrow>
          (CallbackErr
             (if isConstraintViolation err then ValidationError (taken_message props)
              else StoreError err),
           self)
      | Inr results \<Rightarrow>
          (case results of
             [] \<Rightarrow>
               (CallbackErr
                  (Error (lit ''Bubble has been deleted! Title: '' @ to_string (title self))),
                self)
           | r # _ \<Rightarrow> (CallbackOk (), self\<lparr> bnode := r \<rparr>)))"

definition patch ::
  "(request \<Rightarrow> 's \<Rightarrow> node response \<times> 's) \<Rightarrow> bubble \<Rightarrow> jsobject \<Rightarrow> 's
     \<Rightarrow> (unit outcome \<times> bubble) \<times> 's" where
  "patch db self props s =
     (case patch_request self props of
        Inl e \<Rightarrow> ((Threw e, self), s)
      | Inr rq \<Rightarrow> (case db rq s of (resp, s') \<Rightarrow> (patch_callback self props resp, s')))"

section \<open>Bubble.prototype.getRelatedToAndOthers\<close>

definition related_query :: string where
  "related_query = join newline
     [''MATCH (bubble:Bubble {title: {thisTitle}})'',
      ''MATCH (other:Bubble)'',
      ''OPTIONAL MATCH (bubble) -[rel:related]-> (other)'',
      ''RETURN other, COUNT(rel)'']"

definition related_request :: "bubble \<Rightarrow> request" where
  "related_request self = \<lparr> query = related_query, params = [''thisTitle'' \<mapsto> Val (title self)] \<rparr>"

text \<open>
  The loop over the rows: \<open>related\<close> is the count in the row, a non-negative integer,
  which is truthy when it is not zero. \<^verbatim>\<open>push\<close> appends at the end.
\<close>

fun related_loop ::
  "bubble \<Rightarrow> (node \<times> nat) list \<Rightarrow> bubble list \<Rightarrow> bubble list \<Rightarrow> bubble list \<times> bubble list" where
  "related_loop self [] relatedTo others = (relatedTo, others)"
| "related_loop self ((n, related) # rows) relatedTo others =
     (let other = \<lparr> bnode = n \<rparr> in
      if title self = title other then related_loop self rows relatedTo others
      else if related \<noteq> 0 then related_loop self rows (relatedTo @ [other]) others
      else related_loop self rows relatedTo (others @ [other]))"

definition related_callback ::
  "bubble \<Rightarrow> (node \<times> nat) response \<Rightarrow> (bubble list \<times> bubble list) outcome" where
  "related_callback self resp =
     (case resp of
        Inl err \<Rightarrow> CallbackErr (StoreError err)
      | Inr results \<Rightarrow> CallbackOk (related_loop self results [] []))"

definition getRelatedToAndOthers ::
  "(request \<Rightarrow> 's \<Rightarrow> (node \<times> nat) response \<times> 's) \<Rightarrow> bubble \<Rightarrow> 's
     \<Rightarrow> (bubble list \<times> bubble list) outcome \<times> 's" where
  "getRelatedToAndOthers db self s =
     (case db (related_request self) s of (resp, s') \<Rightarrow> (related_callback self resp, s'))"

section \<open>Bubble.prototype.relate and Bubble.prototype.unfollow\<close>

definition relate_query :: string where
  "relate_query = join newline
     [''MATCH (bubble:Bubble {title: {thisTitle}})'',
      ''MATCH (other:Bubble {title: {otherTitle}})'',
      ''MERGE (bubble) -[rel:related]-> (other)'']"

definition relate_request :: "bubble \<Rightarrow> bubble \<Rightarrow> request" where
  "relate_request self other =
     \<lparr> query = relate_query,
       params = [''thisTitle'' \<mapsto> Val (title self), ''otherTitle'' \<mapsto> Val (title other)] \<rparr>"

text \<open>The callback of both operations is \<^verbatim>\<open>function (err) { callback(err); }\<close>.\<close>

definition err_callback :: "unit response \<Rightarrow> unit outcome" where
  "err_callback resp =
     (case resp of Inl err \<Rightarrow> CallbackErr (StoreError err) | Inr _ \<Rightarrow> CallbackOk ())"

definition relate ::
  "(request \<Rightarrow> 's \<Rightarrow> unit response \<times> 's) \<Rightarrow> bubble \<Rightarrow> bubble \<Rightarrow> 's \<Rightarrow> unit outcome \<times> 's" where
  "relate db self other s =
     (case db (relate_request self other) s of (resp, s') \<Rightarrow> (err_callback resp, s'))"

definition unfollow_query :: string where
  "unfollow_query = join newline
     [''MATCH (bubble:Bubble {title: {thisTitle}})'',
      ''MATCH (other:Bubble {title: {otherTitle}})'',
      ''MATCH (bubble) -[rel:related]-> (other)'',
      ''DELETE rel'']"

definition unfollow_request :: "bubble \<Rightarrow> bubble \<Rightarrow> request" where
  "unfollow_request self other =
     \<lparr> query = unfollow_query,
       params = [''thisTitle'' \<mapsto> Val (title self), ''otherTitle'' \<mapsto> Val (title other)] \<rparr>"

definition unfollow ::
  "(request \<Rightarrow> 's \<Rightarrow> unit response \<times> 's) \<Rightarrow> bubble \<Rightarrow> bubble \<Rightarrow> 's \<Rightarrow> unit outcome \<times> 's" where
  "unfollow db self other s =
     (case db (unfollow_request self other) s of (resp, s') \<Rightarrow> (err_callback resp, s'))"

section \<open>The routes that relate and unrelate\<close>

text \<open>
  The methods of \<^verbatim>\<open>Bubble.prototype\<close> that take another Bubble and a callback, by
  the name under which the source assigns them. Calling a name that the prototype does
  not have is a call on \<^verbatim>\<open>undefined\<close>, which throws a \<open>TypeError\<close>.
\<close>

definition Bubble_prototype ::
  "string \<rightharpoonup> ((request \<Rightarrow> 's \<Rightarrow> unit response \<times> 's) \<Rightarrow> bubble \<Rightarrow> bubble \<Rightarrow> 's \<Rightarrow> unit outcome \<times> 's)" where
  "Bubble_prototype = [''relate'' \<mapsto> relate, ''unfollow'' \<mapsto> unfollow]"

definition call_method ::
  "string \<Rightarrow> (request \<Rightarrow> 's \<Rightarrow> unit response \<times> 's) \<Rightarrow> bubble \<Rightarrow> bubble \<Rightarrow> 's \<Rightarrow> unit outcome \<times> 's" where
  "call_method name db self other s =
     (case Bubble_prototype name of
        None \<Rightarrow> (Threw TypeError, s)
      | Some method \<Rightarrow> method db self other s)"

text \<open>
  How a route ends: \<^verbatim>\<open>res.redirect(getBubbleURL(bubble))\<close>, \<^verbatim>\<open>next(err)\<close>, or an
  exception that nothing in the route catches.
\<close>

datatype route_result = Redirect bubble | Next js_error | Uncaught js_error

text \<open>
  \<^verbatim>\<open>exports.relate\<close> and \<^verbatim>\<open>exports.unrelate\<close>: \<open>t\<close> is \<^verbatim>\<open>req.params.title\<close> and
  \<open>otherTitle\<close> is \<^verbatim>\<open>req.body.otherTitle\<close>; \<open>dbn\<close> answers the queries that return
  nodes and \<open>dbu\<close> those that return nothing. The first calls \<^verbatim>\<open>bubble.relate\<close>, the
  second \<^verbatim>\<open>bubble.unrelate\<close>.
\<close>

definition route_relate ::
  "(request \<Rightarrow> 's \<Rightarrow> node response \<times> 's) \<Rightarrow> (request \<Rightarrow> 's \<Rightarrow> unit response \<times> 's) \<Rightarrow>
     jsval \<Rightarrow> jsval \<Rightarrow> 's \<Rightarrow> route_result \<times> 's" where
  "route_relate dbn dbu t otherTitle s =
     (case get dbn t s of
        (Threw e, s1) \<Rightarrow> (Uncaught e, s1)
      | (CallbackErr err, s1) \<Rightarrow> (Next err, s1)
      | (CallbackOk bubble, s1) \<Rightarrow>
          (case get dbn otherTitle s1 of
             (Threw e, s2) \<Rightarrow> (Uncaught e, s2)
           | (CallbackErr err, s2) \<Rightarrow> (Next err, s2)
           | (CallbackOk other, s2) \<Rightarrow>
               (case call_method ''relate'' dbu bubble other s2 of
                  (Threw e, s3) \<Rightarrow> (Uncaught e, s3)
                | (CallbackErr err, s3) \<Rightarrow> (Next err, s3)
                | (CallbackOk _, s3) \<Rightarrow> (Redirect bubble, s3))))"

definition route_unrelate ::
  "(request \<Rightarrow> 's \<Rightarrow> node response \<times> 's) \<Rightarrow> (request \<Rightarrow> 's \<Rightarrow> unit response \<times> 's) \<Rightarrow>
     jsval \<Rightarrow> jsval \<Rightarrow> 's \<Rightarrow> route_result \<times> 's" where
  "route_unrelate dbn dbu t otherTitle s =
     (case get dbn t s of
        (Threw e, s1) \<Rightarrow> (Uncaught e, s1)
      | (CallbackErr err, s1) \<Rightarrow> (Next err, s1)
      | (CallbackOk bubble, s1) \<Rightarrow>
          (case get dbn otherTitle s1 of
             (Threw e, s2) \<Rightarrow> (Uncaught e, s2)
           | (CallbackErr err, s2) \<Rightarrow> (Next err, s2)
           | (CallbackOk other, s2) \<Rightarrow>
               (case call_method ''unrelate'' dbu bubble other s2 of
                  (Threw e, s3) \<Rightarrow> (Uncaught e, s3)
                | (CallbackErr err, s3) \<Rightarrow> (Next err, s3)
                | (CallbackOk _, s3) \<Rightarrow> (Redirect bubble, s3))))"

section \<open>The graph store\<close>

text \<open>
  Modelled from the spec: the graph store that executes the statements is not part of
  the sources. The specification describes it as a property graph of nodes with label
  \<^verbatim>\<open>Bubble\<close> and directed relationships of type \<^verbatim>\<open>related\<close>, and the statements by
  their clauses: match-by-property, merge (an existing edge is untouched, not
  duplicated), match-edge, delete. The three statements below are modelled clause by
  clause; each is atomic, and a statement without a RETURN clause answers with no rows.
\<close>

record rel =
  rel_start :: nat
  rel_end :: nat
  rel_type :: string

record graph =
  nodes :: "node list"
  rels :: "rel list"

definition param_val :: "(string \<rightharpoonup> param) \<Rightarrow> string \<Rightarrow> jsval" where
  "param_val ps k = (case ps k of Some (Val v) \<Rightarrow> v | _ \<Rightarrow> Undefined)"

text \<open>
  Modelled from the spec: the store's comparison of a node's title with a parameter
  ("exact title match"); it holds between equal strings only.
\<close>

fun same_title :: "jsval \<Rightarrow> jsval \<Rightarrow> bool" where
  "same_title (Str a) (Str b) = (a = b)"
| "same_title _ _ = False"

text \<open>
  Modelled from the spec: the store's match-by-property clause
  \<^verbatim>\<open>MATCH (v:label {title: {p}})\<close>, the nodes with the label whose title is the
  parameter.
\<close>

definition match_node :: "graph \<Rightarrow> string \<Rightarrow> jsval \<Rightarrow> node list" where
  "match_node g label t =
     filter (\<lambda>n. label \<in> set (labels n) \<and> same_title (prop_get (properties n) ''title'') t)
       (nodes g)"

text \<open>
  Modelled from the spec: the store's rows after the two MATCH clauses of relate and
  unfollow ("match-both"), every pair of matches.
\<close>

definition match_both :: "graph \<Rightarrow> (string \<rightharpoonup> param) \<Rightarrow> (node \<times> node) list" where
  "match_both g ps =
     concat (map (\<lambda>b. map (\<lambda>other. (b, other))
                          (match_node g ''Bubble'' (param_val ps ''otherTitle'')))
                 (match_node g ''Bubble'' (param_val ps ''thisTitle'')))"

definition connects :: "string \<Rightarrow> node \<Rightarrow> node \<Rightarrow> rel \<Rightarrow> bool" where
  "connects ty a b r = (rel_start r = node_id a \<and> rel_end r = node_id b \<and> rel_type r = ty)"

text \<open>
  Modelled from the spec: the store's merge-edge clause \<^verbatim>\<open>MERGE (a) -[:ty]-> (b)\<close>,
  row by row: where a relationship of the type from \<open>a\<close> to \<open>b\<close> exists the graph is
  left as it is, otherwise one is created.
\<close>

fun merge_rel :: "string \<Rightarrow> (node \<times> node) list \<Rightarrow> graph \<Rightarrow> graph" where
  "merge_rel ty [] g = g"
| "merge_rel ty ((a, b) # rows) g =
     merge_rel ty rows
       (if list_ex (connects ty a b) (rels g) then g
        else g\<lparr> rels := rels g @ [\<lparr> rel_start = node_id a, rel_end = node_id b, rel_type = ty \<rparr>] \<rparr>)"

text \<open>
  Modelled from the spec: the store's match-edge-then-delete clauses
  \<^verbatim>\<open>MATCH (a) -[rel:ty]-> (b) DELETE rel\<close>: every relationship matched in some row
  is removed, and none when there is no match.
\<close>

definition delete_rel :: "string \<Rightarrow> (node \<times> node) list \<Rightarrow> graph \<Rightarrow> graph" where
  "delete_rel ty rows g =
     g\<lparr> rels := filter (\<lambda>r. \<not> list_ex (\<lambda>(a, b). connects ty a b r) rows) (rels g) \<rparr>"

text \<open>
  Modelled from the spec: the store's execution of the statements of relate, unfollow
  and get, given their parameters: the answer and the graph afterwards.
\<close>

definition relate_statement :: "(string \<rightharpoonup> param) \<Rightarrow> graph \<Rightarrow> unit response \<times> graph" where
  "relate_statement ps g = (Inr [], merge_rel ''related'' (match_both g ps) g)"

definition unfollow_statement :: "(string \<rightharpoonup> param) \<Rightarrow> graph \<Rightarrow> unit response \<times> graph" where
  "unfollow_statement ps g = (Inr [], delete_rel ''related'' (match_both g ps) g)"

definition get_statement :: "(string \<rightharpoonup> param) \<Rightarrow> graph \<Rightarrow> node response \<times> graph" where
  "get_statement ps g = (Inr (match_node g ''Bubble'' (param_val ps ''title'')), g)"

text \<open>
  Modelled from the spec: a store that tells the statements apart by their text. It
  executes the match-both-then-merge-edge statement, in the text given here, as
  \<open>relate_statement\<close>, and refuses every other text as a syntax error without
  touching the graph.
\<close>

definition merge_store :: "request \<Rightarrow> graph \<Rightarrow> unit response \<times> graph" where
  "merge_store rq g =
     (if query rq =
           ''MATCH (bubble:Bubble {title: {thisTitle}})'' @ [CHR 0x0A] @
           ''MATCH (other:Bubble {title: {otherTitle}})'' @ [CHR 0x0A] @
           ''MERGE (bubble) -[rel:related]-> (other)''
      then relate_statement (params rq) g
      else (Inl (ClientError (lit ''Neo.ClientError.Statement.InvalidSyntax'')), g))"

text \<open>The number of \<^verbatim>\<open>related\<close> relationships from one node to another.\<close>

definition related_count :: "graph \<Rightarrow> node \<Rightarrow> node \<Rightarrow> nat" where
  "related_count g a b = length (filter (connects ''related'' a b) (rels g))"

section \<open>Values used in examples\<close>

definition alpha_node :: node where
  "alpha_node =
     \<lparr> node_id = 1, labels = [''Bubble''], properties = [''title'' \<mapsto> Str (lit ''Alpha'')] \<rparr>"

definition beta_node :: node where
  "beta_node =
     \<lparr> node_id = 2, labels = [''Bubble''], properties = [''title'' \<mapsto> Str (lit ''Beta'')] \<rparr>"

definition alpha :: bubble where
  "alpha = \<lparr> bnode = alpha_node \<rparr>"

definition beta :: bubble where
  "beta = \<lparr> bnode = beta_node \<rparr>"

definition two_bubbles :: graph where
  "two_bubbles = \<lparr> nodes = [alpha_node, beta_node], rels = [] \<rparr>"

definition related_bubbles :: graph where
  "related_bubbles =
     \<lparr> nodes = [alpha_node, beta_node],
       rels = [\<lparr> rel_start = 1, rel_end = 2, rel_type = ''related'' \<rparr>] \<rparr>"

definition constraint_violation :: store_error where
  "constraint_violation = ClientError (lit ''Neo.ClientError.Schema.ConstraintViolation'')"

text \<open>The Bubble that the loop of \<open>getRelatedToAndOthers\<close> builds from a row.\<close>

definition row_bubble :: "node \<times> nat \<Rightarrow> bubble" where
  "row_bubble row = \<lparr> bnode = fst row \<rparr>"

section \<open>Validation: what is accepted and what is rejected\<close>

lemma validate_unfold:
  "validate props req =
     (case validateProp ''title'' (prop_get props ''title'') req of
        Some e \<Rightarrow> Inl e
      | None \<Rightarrow> Inr [''title'' \<mapsto> prop_get props ''title''])"
  by (simp add: validate_def VALIDATION_INFO_def Let_def split: option.split)

lemma validateProp_title_Str:
  "validateProp ''title'' (Str s) req =
     (if s = [] then
        (if req then Some (ValidationError (lit ''Missing title (required).'')) else None)
      else if spec_title_ok s then None
      else Some (ValidationError (first_failure s)))"
  apply (simp add: validateProp_def VALIDATION_INFO_def title_info_def title_pattern_def
      spec_title_ok_def first_failure_def)
  apply (simp add: lit_def)
  done

lemma validateProp_title_falsy:
  "\<not> truthy v \<Longrightarrow> validateProp ''title'' v req =
     (if req then Some (ValidationError (lit ''Missing title (required).'')) else None)"
  by (simp add: validateProp_def VALIDATION_INFO_def title_info_def lit_def)

lemma validate_Inr_title:
  "validate props req = Inr safe \<Longrightarrow> safe = [''title'' \<mapsto> prop_get props ''title'']"
  by (auto simp add: validate_unfold split: option.splits)

lemma validate_Inr_string:
  "validate props req = Inr safe \<Longrightarrow> safe ''title'' = Some (Str s) \<Longrightarrow> s \<noteq> [] \<Longrightarrow>
   spec_title_ok s"
  by (auto simp add: validate_unfold validateProp_title_Str split: option.splits if_splits)

lemma title_alpha_beta:
  "title alpha = Str (lit ''Alpha'')" "title beta = Str (lit ''Beta'')"
  by (simp_all add: title_def alpha_def beta_def alpha_node_def beta_node_def prop_get_def)

text \<open>
  C1. The claim: create validates with \<open>requireAll = true\<close>, so that an absent or empty
  title fails with "Missing title (required)." before any store query. The source calls
  \<^verbatim>\<open>validate(props)\<close> without the flag: for an absent and for an empty title the
  request is built and handed to the store, with the title as it came. With the flag
  \<open>validate\<close> does raise the error the claim names.
\<close>

theorem create_accepts_missing_title:
  "create_request Map.empty =
     Inr \<lparr> query = create_query, params = [''props'' \<mapsto> Props [''title'' \<mapsto> Undefined]] \<rparr> \<and>
   create_request [''title'' \<mapsto> Str []] =
     Inr \<lparr> query = create_query, params = [''props'' \<mapsto> Props [''title'' \<mapsto> Str []]] \<rparr> \<and>
   validate Map.empty True = Inl (ValidationError (lit ''Missing title (required).'')) \<and>
   validate [''title'' \<mapsto> Str []] True = Inl (ValidationError (lit ''Missing title (required).''))"
  by (simp add: create_request_def validate_unfold prop_get_def validateProp_title_falsy
      validateProp_title_Str)

text \<open>
  C2, as amended. For a title that is a string: if it matches \<^verbatim>\<open>^[A-Za-z0-9_]{2,55}$\<close>
  then \<open>validate\<close> returns the attribute set with that title, whatever the flag; if it
  is not empty and violates the length or the character rule then \<open>validate\<close> raises a
  ValidationError whose message is that of the first failing check, in the order minimum
  length, maximum length, pattern.
\<close>

theorem validate_title_rules:
  assumes "props ''title'' = Some (Str s)"
  shows "(spec_title_ok s \<longrightarrow> validate props req = Inr [''title'' \<mapsto> Str s]) \<and>
         (s \<noteq> [] \<and> \<not> spec_title_ok s \<longrightarrow>
            validate props req = Inl (ValidationError (first_failure s)))"
  using assms
  by (auto simp add: validate_unfold prop_get_def validateProp_title_Str spec_title_ok_def)

text \<open>
  A title within the rules is accepted; a one-character title is too short; 56
  exclamation marks break the maximum length and the pattern, and the message is the
  one of the maximum length.
\<close>

theorem validate_title_rules_witness:
  "validate [''title'' \<mapsto> Str (lit ''Alpha_1'')] True = Inr [''title'' \<mapsto> Str (lit ''Alpha_1'')] \<and>
   validate [''title'' \<mapsto> Str (lit ''a'')] False =
     Inl (ValidationError (lit ''Invalid title (too short). Requirements: 2-55 characters; letters, numbers, and underscores only.'')) \<and>
   validate [''title'' \<mapsto> Str (replicate 56 0x21)] False =
     Inl (ValidationError (lit ''Invalid title (too long). Requirements: 2-55 characters; letters, numbers, and underscores only.''))"
proof -
  have ok: "spec_title_ok (lit ''Alpha_1'')"
    by (simp add: spec_title_ok_def lit_def word_char_def)
  have short: "lit ''a'' \<noteq> [] \<and> \<not> spec_title_ok (lit ''a'')"
    by (simp add: spec_title_ok_def lit_def)
  have long: "replicate 56 (0x21 :: 16 word) \<noteq> [] \<and> \<not> spec_title_ok (replicate 56 0x21)"
    by (simp add: spec_title_ok_def)
  have msgs: "first_failure (lit ''a'') = lit ''Invalid title (too short). Requirements: 2-55 characters; letters, numbers, and underscores only.''"
    "first_failure (replicate 56 0x21) = lit ''Invalid title (too long). Requirements: 2-55 characters; letters, numbers, and underscores only.''"
    by (simp_all add: first_failure_def lit_def)
  from validate_title_rules [of "[''title'' \<mapsto> Str (lit ''Alpha_1'')]" "lit ''Alpha_1''" True]
    validate_title_rules [of "[''title'' \<mapsto> Str (lit ''a'')]" "lit ''a''" False]
    validate_title_rules [of "[''title'' \<mapsto> Str (replicate 56 0x21)]" "replicate 56 0x21" False]
    ok short long
  show ?thesis
    by (simp only: msgs fun_upd_same simp_thms)
qed

text \<open>
  The claim as stated fails at the empty title: it violates the length rule, and
  \<open>validate\<close> without the flag accepts it.
\<close>

theorem validate_empty_title_accepted:
  "\<not> spec_title_ok [] \<and> validate [''title'' \<mapsto> Str []] False = Inr [''title'' \<mapsto> Str []]"
  by (simp add: spec_title_ok_def validate_unfold prop_get_def validateProp_title_Str)

text \<open>
  C10. A successful \<open>validate\<close> returns an object whose keys are exactly the
  recognized fields, that is \<open>title\<close>, each mapped to the value \<open>props\<close> has for it; so
  a patch with an empty attribute set sends a property set in which \<open>title\<close> is present
  with the value \<^verbatim>\<open>undefined\<close>.
\<close>

theorem validate_result_keys:
  "(validate props req = Inr safe \<longrightarrow>
      dom safe = set (map fst VALIDATION_INFO) \<and> dom safe = {''title''} \<and>
      (\<forall>k \<in> dom safe. safe k = Some (prop_get props k))) \<and>
   patch_request self Map.empty =
     Inr \<lparr> query = patch_query,
           params = [''title'' \<mapsto> Val (title self),
                     ''props'' \<mapsto> Props [''title'' \<mapsto> Undefined]] \<rparr>"
proof -
  have "dom safe = set (map fst VALIDATION_INFO) \<and> dom safe = {''title''} \<and>
      (\<forall>k \<in> dom safe. safe k = Some (prop_get props k))" if "validate props req = Inr safe"
    using validate_Inr_title [OF that] by (simp add: VALIDATION_INFO_def)
  moreover have "patch_request self Map.empty =
     Inr \<lparr> query = patch_query,
           params = [''title'' \<mapsto> Val (title self),
                     ''props'' \<mapsto> Props [''title'' \<mapsto> Undefined]] \<rparr>"
    by (simp add: patch_request_def validate_unfold prop_get_def validateProp_title_falsy)
  ultimately show ?thesis by blast
qed

theorem validate_result_keys_witness:
  "validate Map.empty False = Inr [''title'' \<mapsto> Undefined] \<and>
   dom [''title'' \<mapsto> Undefined] = {''title''} \<and>
   [''title'' \<mapsto> Undefined] ''title'' = Some (prop_get Map.empty ''title'')"
proof -
  have v: "validate Map.empty False = Inr [''title'' \<mapsto> Undefined]"
    by (simp add: validate_unfold prop_get_def validateProp_title_falsy)
  from validate_result_keys [of Map.empty False "[''title'' \<mapsto> Undefined]" alpha] v
  show ?thesis by simp
qed

section \<open>The titles sent to the store\<close>

text \<open>
  C3, as amended. Whenever create or patch hands a request to the store, its property
  set has the one key \<open>title\<close>, holding the caller's value, and if that value is a
  non-empty string then it has 2--55 characters, all of them letters, digits or
  underscores. An absent or empty title is not validated by patch.
\<close>

theorem persisted_title_rule:
  assumes "create_request props = Inr rq \<or> patch_request self props = Inr rq"
  shows "\<exists>safe. params rq ''props'' = Some (Props safe) \<and> dom safe = {''title''} \<and>
           safe ''title'' = Some (prop_get props ''title'') \<and>
           (\<forall>s. safe ''title'' = Some (Str s) \<and> s \<noteq> [] \<longrightarrow> spec_title_ok s)"
proof -
  from assms obtain safe where v: "validate props False = Inr safe"
    and p: "params rq ''props'' = Some (Props safe)"
    by (auto simp add: create_request_def patch_request_def split: sum.splits)
  from v have "safe = [''title'' \<mapsto> prop_get props ''title'']"
    by (rule validate_Inr_title)
  moreover have "\<forall>s. safe ''title'' = Some (Str s) \<and> s \<noteq> [] \<longrightarrow> spec_title_ok s"
    using validate_Inr_string [OF v] by blast
  ultimately show ?thesis using p by auto
qed

theorem persisted_title_rule_witness:
  "patch_request alpha [''title'' \<mapsto> Str (lit ''Gamma_2'')] =
     Inr \<lparr> query = patch_query,
           params = [''title'' \<mapsto> Val (title alpha),
                     ''props'' \<mapsto> Props [''title'' \<mapsto> Str (lit ''Gamma_2'')]] \<rparr> \<and>
   spec_title_ok (lit ''Gamma_2'')"
proof -
  have ok: "spec_title_ok (lit ''Gamma_2'')"
    by (simp add: spec_title_ok_def lit_def word_char_def)
  have r: "patch_request alpha [''title'' \<mapsto> Str (lit ''Gamma_2'')] =
     Inr \<lparr> query = patch_query,
           params = [''title'' \<mapsto> Val (title alpha),
                     ''props'' \<mapsto> Props [''title'' \<mapsto> Str (lit ''Gamma_2'')]] \<rparr>"
    using ok
    by (simp add: patch_request_def validate_unfold prop_get_def validateProp_title_Str lit_def)
  from persisted_title_rule [of "[''title'' \<mapsto> Str (lit ''Gamma_2'')]" _ alpha, OF disjI2, OF r]
  have "spec_title_ok (lit ''Gamma_2'')"
    by (simp add: prop_get_def lit_def)
  with r show ?thesis by simp
qed

text \<open>
  The claim as stated fails for patch: an empty title passes validation and is sent to
  the store as the new title, and it does not have 2--55 characters.
\<close>

theorem persisted_title_counterexample:
  "patch_request alpha [''title'' \<mapsto> Str []] =
     Inr \<lparr> query = patch_query,
           params = [''title'' \<mapsto> Val (title alpha),
                     ''props'' \<mapsto> Props [''title'' \<mapsto> Str []]] \<rparr> \<and>
   \<not> spec_title_ok []"
  by (simp add: patch_request_def validate_unfold prop_get_def validateProp_title_Str
      spec_title_ok_def)

section \<open>Bubble.get: the outcomes\<close>

text \<open>
  C4, as amended. \<open>get\<close> issues its one query and ends with the built-in \<open>Error\<close>
  whose message is "No such bubble with title: " followed by the title exactly when the
  store answers with zero rows; on one or more rows it returns a Bubble wrapping the
  first row's node; a store error is passed on as it is. It never ends with a
  \<open>NotFoundError\<close>.
\<close>

theorem get_outcomes:
  assumes "db (get_request t) s = (resp, s')"
  shows "(fst (get db t s) = CallbackErr (Error (lit ''No such bubble with title: '' @ to_string t)))
           = (resp = Inr []) \<and>
         (\<forall>r rs. resp = Inr (r # rs) \<longrightarrow> fst (get db t s) = CallbackOk \<lparr> bnode = r \<rparr>) \<and>
         (\<forall>err. resp = Inl err \<longrightarrow> fst (get db t s) = CallbackErr (StoreError err)) \<and>
         (\<forall>m. fst (get db t s) \<noteq> CallbackErr (NotFoundError m)) \<and>
         snd (get db t s) = s'"
  using assms
  by (auto simp add: get_def get_callback_def split: sum.splits list.splits)

theorem get_outcomes_witness:
  "fst (get (\<lambda>rq s. (Inr [], s)) (Str (lit ''Alpha'')) ()) =
     CallbackErr (Error (lit ''No such bubble with title: Alpha'')) \<and>
   fst (get (\<lambda>rq s. (Inr [beta_node], s)) (Str (lit ''Beta'')) ()) =
     CallbackOk \<lparr> bnode = beta_node \<rparr>"
proof -
  from get_outcomes [of "\<lambda>rq s. (Inr [], s)" "Str (lit ''Alpha'')" "()" "Inr []" "()"]
    get_outcomes [of "\<lambda>rq s. (Inr [beta_node], s)" "Str (lit ''Beta'')" "()" "Inr [beta_node]" "()"]
  show ?thesis
    by (simp add: lit_def)
qed

text \<open>
  The claim as stated fails on zero rows: the error is an \<open>Error\<close>, not a
  \<open>NotFoundError\<close>.
\<close>

theorem get_not_found_counterexample:
  "get_callback (Str (lit ''Alpha'')) (Inr []) =
     CallbackErr (Error (lit ''No such bubble with title: Alpha'')) \<and>
   get_callback (Str (lit ''Alpha'')) (Inr []) \<noteq>
     CallbackErr (NotFoundError (lit ''No such bubble with title: Alpha''))"
  by (simp add: get_callback_def lit_def)

section \<open>Store errors in create and patch\<close>

lemma isConstraintViolation_iff:
  "isConstraintViolation err = (err = constraint_violation)"
  by (cases err) (auto simp add: constraint_violation_def)

text \<open>
  C5, as amended. In create and in patch a store error becomes a ValidationError exactly
  when it is a \<open>ClientError\<close> whose code is
  \<^verbatim>\<open>Neo.ClientError.Schema.ConstraintViolation\<close>; every other store error reaches the
  caller as it is. The message is "The title ", the code unit \<open>0x2018\<close>, the caller's
  title converted to a string, the code unit \<open>0x2019\<close>, " is taken.". Each operation
  calls the store once, after validation, and its outcome is the callback's on that one
  answer.
\<close>

theorem store_error_translation:
  "create_callback props (Inl err) =
     CallbackErr (if err = constraint_violation then ValidationError (taken_message props)
                  else StoreError err) \<and>
   patch_callback self props (Inl err) =
     (CallbackErr (if err = constraint_violation then ValidationError (taken_message props)
                   else StoreError err), self) \<and>
   taken_message props =
     lit ''The title '' @ [0x2018] @ to_string (prop_get props ''title'') @ [0x2019] @
     lit '' is taken.'' \<and>
   create db props s =
     (case create_request props of
        Inl e \<Rightarrow> (Threw e, s)
      | Inr rq \<Rightarrow> (create_callback props (fst (db rq s)), snd (db rq s))) \<and>
   patch db' self props s =
     (case patch_request self props of
        Inl e \<Rightarrow> ((Threw e, self), s)
      | Inr rq \<Rightarrow> (patch_callback self props (fst (db' rq s)), snd (db' rq s)))"
  by (simp add: create_callback_def patch_callback_def isConstraintViolation_iff taken_message_def
      create_def patch_def split: sum.splits prod.splits)

text \<open>
  The claim as stated fails on the message: the title is set between the typographic
  quotes \<open>0x2018\<close> and \<open>0x2019\<close>, not between apostrophes (\<open>0x27\<close>).
\<close>

theorem taken_message_counterexample:
  "create_callback [''title'' \<mapsto> Str (lit ''Alpha'')] (Inl constraint_violation) =
     CallbackErr (ValidationError
       (lit ''The title '' @ [0x2018] @ lit ''Alpha'' @ [0x2019] @ lit '' is taken.'')) \<and>
   create_callback [''title'' \<mapsto> Str (lit ''Alpha'')] (Inl constraint_violation) \<noteq>
     CallbackErr (ValidationError
       (lit (''The title '' @ [CHR 0x27] @ ''Alpha'' @ [CHR 0x27] @ '' is taken.'')))"
  by (simp add: create_callback_def constraint_violation_def taken_message_def prop_get_def lit_def)

section \<open>Bubble.prototype.patch: the snapshot\<close>

text \<open>
  C6. When validation has passed and the store answers the patch query with zero rows,
  patch ends with the built-in \<open>Error\<close> "Bubble has been deleted! Title: ..." and the
  Bubble is as before; when the store answers with rows, patch succeeds and the Bubble's
  node is the first row's node.
\<close>

theorem patch_snapshot:
  assumes "patch_request self props = Inr rq" and "db rq s = (resp, s')"
  shows "(resp = Inr [] \<longrightarrow>
            fst (patch db self props s) =
              (CallbackErr (Error (lit ''Bubble has been deleted! Title: '' @ to_string (title self))),
               self)) \<and>
         (\<forall>r rs. resp = Inr (r # rs) \<longrightarrow>
            fst (patch db self props s) = (CallbackOk (), \<lparr> bnode = r \<rparr>))"
  using assms by (simp add: patch_def patch_callback_def)

theorem patch_snapshot_witness:
  "fst (patch (\<lambda>rq s. (Inr [], s)) alpha [''title'' \<mapsto> Str (lit ''Gamma'')] ()) =
     (CallbackErr (Error (lit ''Bubble has been deleted! Title: Alpha'')), alpha) \<and>
   fst (patch (\<lambda>rq s. (Inr [beta_node], s)) alpha [''title'' \<mapsto> Str (lit ''Beta'')] ()) =
     (CallbackOk (), beta)"
proof -
  have ok: "spec_title_ok (lit ''Gamma'')" "spec_title_ok (lit ''Beta'')"
    by (simp_all add: spec_title_ok_def lit_def word_char_def)
  have r1: "patch_request alpha [''title'' \<mapsto> Str (lit ''Gamma'')] =
      Inr \<lparr> query = patch_query, params = [''title'' \<mapsto> Val (title alpha),
            ''props'' \<mapsto> Props [''title'' \<mapsto> Str (lit ''Gamma'')]] \<rparr>"
    using ok
    by (simp add: patch_request_def validate_unfold prop_get_def validateProp_title_Str lit_def)
  have r2: "patch_request alpha [''title'' \<mapsto> Str (lit ''Beta'')] =
      Inr \<lparr> query = patch_query, params = [''title'' \<mapsto> Val (title alpha),
            ''props'' \<mapsto> Props [''title'' \<mapsto> Str (lit ''Beta'')]] \<rparr>"
    using ok
    by (simp add: patch_request_def validate_unfold prop_get_def validateProp_title_Str lit_def)
  from patch_snapshot [OF r1, of "\<lambda>rq s. (Inr [], s)" "()" "Inr []" "()"]
    patch_snapshot [OF r2, of "\<lambda>rq s. (Inr [beta_node], s)" "()" "Inr [beta_node]" "()"]
  show ?thesis
    by (simp add: title_alpha_beta beta_def lit_def)
qed

section \<open>Bubble.prototype.getRelatedToAndOthers: the partition\<close>

lemma related_loop_acc:
  "related_loop self rows rel oth =
     (rel @ map row_bubble
        (filter (\<lambda>row. title (row_bubble row) \<noteq> title self \<and> snd row > 0) rows),
      oth @ map row_bubble
        (filter (\<lambda>row. title (row_bubble row) \<noteq> title self \<and> \<not> snd row > 0) rows))"
  by (induction self rows rel oth rule: related_loop.induct)
     (auto simp add: row_bubble_def Let_def)

lemma mset_map_partition:
  "mset (map f (filter P xs)) + mset (map f (filter (\<lambda>x. \<not> P x) xs)) = mset (map f xs)"
  by (induction xs) simp_all

text \<open>
  C7. For every list of rows, the loop returns as \<open>relatedTo\<close> the Bubbles of the rows
  whose title differs from the bubble's own and whose count is greater than zero, and as
  \<open>others\<close> those of the rows whose title differs and whose count is zero, both in the
  order of the rows; the rows with the bubble's own title are in neither. So the two
  lists together hold each row with another title once.
\<close>

theorem related_partition:
  "related_loop self rows [] [] =
     (map row_bubble
        (filter (\<lambda>row. title (row_bubble row) \<noteq> title self \<and> snd row > 0) rows),
      map row_bubble
        (filter (\<lambda>row. title (row_bubble row) \<noteq> title self \<and> \<not> snd row > 0) rows)) \<and>
   mset (fst (related_loop self rows [] [])) + mset (snd (related_loop self rows [] [])) =
     mset (map row_bubble (filter (\<lambda>row. title (row_bubble row) \<noteq> title self) rows)) \<and>
   related_callback self (Inr rows) = CallbackOk (related_loop self rows [] [])"
proof -
  let ?others = "filter (\<lambda>row. title (row_bubble row) \<noteq> title self) rows"
  have "mset (map row_bubble (filter (\<lambda>row. snd row > 0) ?others)) +
        mset (map row_bubble (filter (\<lambda>row. \<not> snd row > 0) ?others)) =
        mset (map row_bubble ?others)"
    by (rule mset_map_partition)
  then have "related_loop self rows [] [] =
     (map row_bubble
        (filter (\<lambda>row. title (row_bubble row) \<noteq> title self \<and> snd row > 0) rows),
      map row_bubble
        (filter (\<lambda>row. title (row_bubble row) \<noteq> title self \<and> \<not> snd row > 0) rows)) \<and>
   mset (fst (related_loop self rows [] [])) + mset (snd (related_loop self rows [] [])) =
     mset (map row_bubble (filter (\<lambda>row. title (row_bubble row) \<noteq> title self) rows))"
    by (simp only: related_loop_acc filter_filter fst_conv snd_conv append_Nil simp_thms)
  moreover have "related_callback self (Inr rows) = CallbackOk (related_loop self rows [] [])"
    by (simp add: related_callback_def)
  ultimately show ?thesis
    by blast
qed

section \<open>relate on the graph store\<close>

lemma nodes_merge_rel: "nodes (merge_rel ty rows g) = nodes g"
  by (induction ty rows g rule: merge_rel.induct) simp_all

lemma merge_rel_keeps:
  "list_ex P (rels g) \<Longrightarrow> list_ex P (rels (merge_rel ty rows g))"
  by (induction ty rows g rule: merge_rel.induct) (simp_all add: list_ex_iff)

lemma merge_rel_connects:
  "(a, b) \<in> set rows \<Longrightarrow> list_ex (connects ty a b) (rels (merge_rel ty rows g))"
proof (induction ty rows g rule: merge_rel.induct)
  case (1 ty g)
  then show ?case by simp
next
  case (2 ty a' b' rows g)
  show ?case
  proof (cases "(a, b) = (a', b')")
    case True
    have "list_ex (connects ty a' b')
            (rels (if list_ex (connects ty a' b') (rels g) then g
                   else g\<lparr> rels := rels g @
                     [\<lparr> rel_start = node_id a', rel_end = node_id b', rel_type = ty \<rparr>] \<rparr>))"
      by (simp add: connects_def)
    then show ?thesis
      using True by (simp add: merge_rel_keeps)
  next
    case False
    with 2 show ?thesis by auto
  qed
qed

lemma merge_rel_present:
  "list_all (\<lambda>(a, b). list_ex (connects ty a b) (rels g)) rows \<Longrightarrow> merge_rel ty rows g = g"
  by (induction ty rows g rule: merge_rel.induct) simp_all

lemma match_both_merge_rel: "match_both (merge_rel ty rows g) ps = match_both g ps"
  by (simp add: match_both_def match_node_def nodes_merge_rel)

lemma relate_statement_twice:
  "snd (relate_statement ps (snd (relate_statement ps g))) = snd (relate_statement ps g)"
proof -
  have "list_all (\<lambda>(a, b). list_ex (connects ''related'' a b)
                   (rels (merge_rel ''related'' (match_both g ps) g))) (match_both g ps)"
    by (auto simp add: list_all_iff merge_rel_connects)
  then have "merge_rel ''related'' (match_both g ps) (merge_rel ''related'' (match_both g ps) g) =
             merge_rel ''related'' (match_both g ps) g"
    by (rule merge_rel_present)
  then show ?thesis
    by (simp add: relate_statement_def match_both_merge_rel)
qed

lemma param_val_relate:
  "param_val (params (relate_request a b)) ''thisTitle'' = title a"
  "param_val (params (relate_request a b)) ''otherTitle'' = title b"
  by (simp_all add: relate_request_def param_val_def)

lemma match_both_single:
  "match_node g ''Bubble'' (title a) = [na] \<Longrightarrow> match_node g ''Bubble'' (title b) = [nb] \<Longrightarrow>
   match_both g (params (relate_request a b)) = [(na, nb)]"
  by (simp add: match_both_def param_val_relate)

lemma related_count_merge_single:
  "related_count (merge_rel ''related'' [(na, nb)] g) na nb =
     (if related_count g na nb = 0 then 1 else related_count g na nb)"
  by (auto simp add: related_count_def list_ex_iff filter_empty_conv connects_def)

lemma merge_single_unchanged:
  "0 < related_count g na nb \<Longrightarrow> merge_rel ''related'' [(na, nb)] g = g"
  by (auto simp add: related_count_def list_ex_iff filter_empty_conv)

lemma match_alpha:
  "match_node related_bubbles ''Bubble'' (Str (lit ''Alpha'')) = [alpha_node]"
  "match_node two_bubbles ''Bubble'' (Str (lit ''Alpha'')) = [alpha_node]"
  by (simp_all add: match_node_def related_bubbles_def two_bubbles_def alpha_node_def
      beta_node_def prop_get_def lit_def)

lemma match_beta:
  "match_node related_bubbles ''Bubble'' (Str (lit ''Beta'')) = [beta_node]"
  "match_node two_bubbles ''Bubble'' (Str (lit ''Beta'')) = [beta_node]"
  by (simp_all add: match_node_def related_bubbles_def two_bubbles_def alpha_node_def
      beta_node_def prop_get_def lit_def)

text \<open>
  C8. \<open>relate\<close> sends the store the statement whose text is the two MATCH clauses by
  title followed by \<^verbatim>\<open>MERGE (bubble) -[rel:related]-> (other)\<close>, with the two titles
  as parameters. On every store that executes this text as the modelled
  match-both-then-merge, \<open>relate\<close> called a second time leaves the graph of the first
  call. Where the two titles each match one node and the graph holds at most one
  \<^verbatim>\<open>related\<close> relationship from the first to the second, there is exactly one after
  the first call and after the second, and a graph that already held it is left as it
  was.
\<close>

theorem relate_idempotent:
  assumes db: "\<And>ps g. db \<lparr> query =
                  ''MATCH (bubble:Bubble {title: {thisTitle}})'' @ [CHR 0x0A] @
                  ''MATCH (other:Bubble {title: {otherTitle}})'' @ [CHR 0x0A] @
                  ''MERGE (bubble) -[rel:related]-> (other)'',
                params = ps \<rparr> g = relate_statement ps g"
    and a: "match_node g ''Bubble'' (title a) = [na]"
    and b: "match_node g ''Bubble'' (title b) = [nb]"
    and le: "related_count g na nb \<le> 1"
  shows "relate_request a b =
           \<lparr> query =
               ''MATCH (bubble:Bubble {title: {thisTitle}})'' @ [CHR 0x0A] @
               ''MATCH (other:Bubble {title: {otherTitle}})'' @ [CHR 0x0A] @
               ''MERGE (bubble) -[rel:related]-> (other)'',
             params = [''thisTitle'' \<mapsto> Val (title a), ''otherTitle'' \<mapsto> Val (title b)] \<rparr> \<and>
         snd (relate db a b (snd (relate db a b g))) = snd (relate db a b g) \<and>
         fst (relate db a b g) = CallbackOk () \<and>
         related_count (snd (relate db a b g)) na nb = 1 \<and>
         related_count (snd (relate db a b (snd (relate db a b g)))) na nb = 1 \<and>
         (related_count g na nb = 1 \<longrightarrow> snd (relate db a b g) = g)"
proof -
  have sent: "relate_request a b =
           \<lparr> query =
               ''MATCH (bubble:Bubble {title: {thisTitle}})'' @ [CHR 0x0A] @
               ''MATCH (other:Bubble {title: {otherTitle}})'' @ [CHR 0x0A] @
               ''MERGE (bubble) -[rel:related]-> (other)'',
             params = [''thisTitle'' \<mapsto> Val (title a), ''otherTitle'' \<mapsto> Val (title b)] \<rparr>"
    by (simp add: relate_request_def relate_query_def newline_def)
  have answer: "db (relate_request a b) h = relate_statement (params (relate_request a b)) h" for h
    using db [of "params (relate_request a b)" h]
    by (simp add: sent)
  have run: "relate db a b h =
      (CallbackOk (), snd (relate_statement (params (relate_request a b)) h))" for h
    by (simp add: relate_def answer relate_statement_def err_callback_def)
  have one: "snd (relate_statement (params (relate_request a b)) g) =
      merge_rel ''related'' [(na, nb)] g"
    by (simp add: relate_statement_def match_both_single [OF a b])
  have twice: "snd (relate db a b (snd (relate db a b g))) = snd (relate db a b g)"
    by (simp add: run relate_statement_twice)
  have after: "snd (relate db a b g) = merge_rel ''related'' [(na, nb)] g"
    by (simp only: run one snd_conv)
  have cnt: "related_count (snd (relate db a b g)) na nb = 1"
    using le by (simp only: after related_count_merge_single) simp
  have same: "snd (relate db a b g) = g" if "related_count g na nb = 1"
    using that by (simp only: after merge_single_unchanged)
  have ok: "fst (relate db a b g) = CallbackOk ()"
    by (simp only: run fst_conv)
  from twice cnt same ok have
    "snd (relate db a b (snd (relate db a b g))) = snd (relate db a b g) \<and>
     fst (relate db a b g) = CallbackOk () \<and>
     related_count (snd (relate db a b g)) na nb = 1 \<and>
     related_count (snd (relate db a b (snd (relate db a b g)))) na nb = 1 \<and>
     (related_count g na nb = 1 \<longrightarrow> snd (relate db a b g) = g)"
    by simp
  with sent show ?thesis by (rule conjI)
qed

text \<open>
  Alpha and Beta without a relationship, on the store that executes only the merge
  text: the first call creates the one relationship, the second call leaves that graph
  as it is.
\<close>

theorem relate_idempotent_witness:
  "relate merge_store alpha beta two_bubbles = (CallbackOk (), related_bubbles) \<and>
   relate merge_store alpha beta related_bubbles = (CallbackOk (), related_bubbles) \<and>
   related_count two_bubbles alpha_node beta_node = 0 \<and>
   related_count related_bubbles alpha_node beta_node = 1"
proof -
  have store: "merge_store \<lparr> query =
                  ''MATCH (bubble:Bubble {title: {thisTitle}})'' @ [CHR 0x0A] @
                  ''MATCH (other:Bubble {title: {otherTitle}})'' @ [CHR 0x0A] @
                  ''MERGE (bubble) -[rel:related]-> (other)'',
                params = ps \<rparr> g = relate_statement ps g" for ps g
    by (simp add: merge_store_def)
  have a: "match_node two_bubbles ''Bubble'' (title alpha) = [alpha_node]"
    by (simp only: title_alpha_beta match_alpha)
  have b: "match_node two_bubbles ''Bubble'' (title beta) = [beta_node]"
    by (simp only: title_alpha_beta match_beta)
  have zero: "related_count two_bubbles alpha_node beta_node = 0"
    by (simp add: related_count_def two_bubbles_def)
  then have le: "related_count two_bubbles alpha_node beta_node \<le> 1"
    by simp
  note inst = relate_idempotent [of merge_store two_bubbles alpha alpha_node beta beta_node,
      OF store a b le]
  have answer: "merge_store (relate_request alpha beta) h =
      relate_statement (params (relate_request alpha beta)) h" for h
    using store [of "params (relate_request alpha beta)" h] inst
    by simp
  have pair: "relate merge_store alpha beta h =
      (CallbackOk (), snd (relate merge_store alpha beta h))" for h
    by (simp add: relate_def answer relate_statement_def err_callback_def)
  have mb: "match_both two_bubbles (params (relate_request alpha beta)) = [(alpha_node, beta_node)]"
    by (rule match_both_single [OF a b])
  have "snd (relate merge_store alpha beta two_bubbles) =
          merge_rel ''related'' [(alpha_node, beta_node)] two_bubbles"
    by (simp add: relate_def answer relate_statement_def mb)
  also have "\<dots> = related_bubbles"
    by (simp add: two_bubbles_def related_bubbles_def connects_def alpha_node_def beta_node_def)
  finally have first: "snd (relate merge_store alpha beta two_bubbles) = related_bubbles" .
  from inst have "snd (relate merge_store alpha beta related_bubbles) = related_bubbles \<and>
        related_count related_bubbles alpha_node beta_node = 1"
    by (simp add: first)
  then show ?thesis
    using zero first pair [of two_bubbles] pair [of related_bubbles] by simp
qed

section \<open>The unrelate route\<close>

lemma get_from_store:
  "get (\<lambda>rq. get_statement (params rq)) t g =
     (get_callback t (Inr (match_node g ''Bubble'' t)), g)"
  by (simp add: get_def get_request_def get_statement_def param_val_def)

lemma get_alpha_beta:
  "get (\<lambda>rq. get_statement (params rq)) (Str (lit ''Alpha'')) related_bubbles =
     (CallbackOk alpha, related_bubbles)"
  "get (\<lambda>rq. get_statement (params rq)) (Str (lit ''Beta'')) related_bubbles =
     (CallbackOk beta, related_bubbles)"
  by (simp_all only: get_from_store match_alpha match_beta get_callback_def alpha_def beta_def
      sum.case list.case)

text \<open>
  C9. The claim: unrelate, as the operation the caller invokes, issues the
  match-both-then-match-edge-then-delete query and removes the relationship. The route
  calls \<^verbatim>\<open>bubble.unrelate\<close>, and the prototype has the operation under the name
  \<^verbatim>\<open>unfollow\<close> only, so the call throws a \<open>TypeError\<close> on every store and every
  pair of Bubbles. With Alpha related to Beta in the store, the route ends with that
  uncaught \<open>TypeError\<close> and the relationship is still there, whereas \<open>unfollow\<close> on the
  same two Bubbles removes it.
\<close>

theorem unrelate_route_throws:
  "call_method ''unrelate'' dbu bubble other s = (Threw TypeError, s) \<and>
   route_unrelate (\<lambda>rq. get_statement (params rq)) (\<lambda>rq. unfollow_statement (params rq))
       (Str (lit ''Alpha'')) (Str (lit ''Beta'')) related_bubbles =
     (Uncaught TypeError, related_bubbles) \<and>
   unfollow (\<lambda>rq. unfollow_statement (params rq)) alpha beta related_bubbles =
     (CallbackOk (), two_bubbles)"
proof -
  have none: "Bubble_prototype ''unrelate'' =
     (None :: ((request \<Rightarrow> graph \<Rightarrow> unit response \<times> graph) \<Rightarrow> bubble \<Rightarrow> bubble \<Rightarrow> graph
                 \<Rightarrow> unit outcome \<times> graph) option)"
    by (simp add: Bubble_prototype_def)
  have route: "route_unrelate (\<lambda>rq. get_statement (params rq))
       (\<lambda>rq. unfollow_statement (params rq))
       (Str (lit ''Alpha'')) (Str (lit ''Beta'')) related_bubbles =
     (Uncaught TypeError, related_bubbles)"
    by (simp add: route_unrelate_def get_alpha_beta call_method_def none)
  have mb: "match_both related_bubbles (params (unfollow_request alpha beta)) =
      [(alpha_node, beta_node)]"
    by (simp add: match_both_def unfollow_request_def param_val_def title_alpha_beta
        match_alpha match_beta)
  have "unfollow (\<lambda>rq. unfollow_statement (params rq)) alpha beta related_bubbles =
          (CallbackOk (), delete_rel ''related'' [(alpha_node, beta_node)] related_bubbles)"
    by (simp add: unfollow_def unfollow_statement_def mb err_callback_def)
  also have "delete_rel ''related'' [(alpha_node, beta_node)] related_bubbles = two_bubbles"
    by (simp add: delete_rel_def related_bubbles_def two_bubbles_def connects_def alpha_node_def
        beta_node_def)
  finally show ?thesis using route by (simp add: call_method_def Bubble_prototype_def)
qed

end
